theory Spec2Isabelle
  imports Main
begin

section \<open>Python values, exceptions and built-ins used by the notebooks\<close>

text \<open>
  The two notebooks (\<^verbatim>\<open>docs/examples/pipeline/query_pipeline_routing.ipynb\<close> and
  \<^verbatim>\<open>docs/examples/data_connectors/SlackDemo.ipynb\<close>) are Python scripts. An exception is
  a value of type \<open>error\<close>; a computation that may raise returns \<open>error + 'a\<close> with
  \<open>Inl\<close> for the raised exception. \<open>ExternalError\<close> stands for whatever an external
  call raises (authentication, network, malformed response), tagged by its message.
\<close>

datatype error =
    KeyError string
  | TypeError
  | IndexError
  | ValueError string
  | ExternalError string

text \<open>Sequencing of two statements: the second runs only if the first did not raise.\<close>

definition then_do :: "error + 'a \<Rightarrow> ('a \<Rightarrow> error + 'b) \<Rightarrow> error + 'b" where
  "then_do r k = (case r of Inl e \<Rightarrow> Inl e | Inr v \<Rightarrow> k v)"

text \<open>The values a dictionary of the notebook can hold, and Python's \<^verbatim>\<open>x[k]\<close>.\<close>

datatype pyval = StrV string | IntV int | NoneV

type_synonym dict = "string \<rightharpoonup> pyval"

definition getitem :: "dict \<Rightarrow> string \<Rightarrow> error + pyval" where
  "getitem x k = (case x k of None \<Rightarrow> Inl (KeyError k) | Some v \<Rightarrow> Inr v)"

text \<open>Python's \<^verbatim>\<open>str\<close> on an \<^verbatim>\<open>int\<close>: a minus sign for a negative number, then
  the decimal digits, most significant first, with no leading zero.\<close>

definition digit_char :: "nat \<Rightarrow> char" where
  "digit_char d = char_of (48 + d)"

fun str_nat :: "nat \<Rightarrow> string" where
  "str_nat n = (if n < 10 then [digit_char n] else str_nat (n div 10) @ [digit_char (n mod 10)])"

declare str_nat.simps [simp del]

definition str_int :: "int \<Rightarrow> string" where
  "str_int i = (if i < 0 then CHR ''-'' # str_nat (nat (- i)) else str_nat (nat i))"

text \<open>Python's \<^verbatim>\<open>int\<close> on a string of that form, to say what "decimal rendering" means.\<close>

definition digit_val :: "char \<Rightarrow> nat" where
  "digit_val c = of_char c - 48"

definition nat_of_digits :: "string \<Rightarrow> nat" where
  "nat_of_digits s = foldl (\<lambda>a c. 10 * a + digit_val c) 0 s"

definition int_of_str :: "string \<Rightarrow> int" where
  "int_of_str s = (case s of
      [] \<Rightarrow> 0
    | c # cs \<Rightarrow> if c = CHR ''-'' then - int (nat_of_digits cs) else int (nat_of_digits s))"

section \<open>The routing notebook: selector wrapper and link functions\<close>

text \<open>
  \<^verbatim>\<open>choices = [...]\<close> of the cell that defines \<^verbatim>\<open>select_choice\<close>.
\<close>

definition choices :: "string list" where
  "choices =
    [''This tool answers specific questions about the document (not summary questions across the document)'',
     ''This tool answers summary questions about the document (not specific questions)'']"

text \<open>
  The result of \<^verbatim>\<open>selector.select(choices, query)\<close>, of which the notebook reads
  \<^verbatim>\<open>output.ind\<close> (and the router's log line \<^verbatim>\<open>reason\<close>). The selector itself
  (\<^verbatim>\<open>LLMSingleSelector.from_defaults()\<close> and its \<^verbatim>\<open>select\<close>) is external: a
  parameter, which may raise.
\<close>

record selector_result =
  ind :: int
  reason :: string

type_synonym selector = "string list \<Rightarrow> string \<Rightarrow> error + selector_result"

text \<open>
  \<^verbatim>\<open>
  def select_choice(query: str) -> Dict:
      selector = LLMSingleSelector.from_defaults()
      output = selector.select(choices, query)
      return {"query": query, "index": str(output.ind)}
  \<close>
\<close>

definition select_choice :: "selector \<Rightarrow> string \<Rightarrow> error + dict" where
  "select_choice selector query =
     then_do (selector choices query)
       (\<lambda>output. Inr [''query'' \<mapsto> StrV query, ''index'' \<mapsto> StrV (str_int (ind output))])"

text \<open>
  The functions given to \<^verbatim>\<open>qp.add_link\<close>:
  \<^verbatim>\<open>condition_fn=lambda x: x["index"] == "0"\<close>, \<^verbatim>\<open>condition_fn=lambda x: x["index"] == "1"\<close>
  and, on both links, \<^verbatim>\<open>input_fn=lambda x: x["query"]\<close>.
\<close>

definition condition_fn_vector :: "dict \<Rightarrow> error + bool" where
  "condition_fn_vector x = then_do (getitem x ''index'') (\<lambda>v. Inr (v = StrV ''0''))"

definition condition_fn_summary :: "dict \<Rightarrow> error + bool" where
  "condition_fn_summary x = then_do (getitem x ''index'') (\<lambda>v. Inr (v = StrV ''1''))"

definition input_fn_query :: "dict \<Rightarrow> error + pyval" where
  "input_fn_query x = getitem x ''query''"

section \<open>The query pipeline engine\<close>

text \<open>
  What flows along the links of a pipeline: a plain Python value (the query string), the
  dictionary \<^verbatim>\<open>select_choice\<close> returns, or an object of the framework (retrieved
  nodes, a response), which the notebook never inspects.
\<close>

datatype 'a payload = Val pyval | Choice dict | Obj 'a

type_synonym 'a kwargs = "string \<rightharpoonup> 'a payload"

text \<open>
  A module of a pipeline: the keyword under which it takes an input that a link gives
  it without a \<^verbatim>\<open>dest_key\<close> (a module with one input has one), and what running it
  on its keyword arguments returns. The keywords are those the notebook's recorded output
  shows (\<^verbatim>\<open>Running module selector with input: query: ...\<close>).
\<close>

record 'a qp_module =
  free_key :: "string option"
  run_component :: "'a kwargs \<Rightarrow> error + 'a payload"

text \<open>The arguments of one \<^verbatim>\<open>qp.add_link(src, dest, dest_key=, condition_fn=, input_fn=)\<close>.\<close>

record 'a link =
  src :: string
  dest :: string
  dest_key :: "string option"
  condition_fn :: "('a payload \<Rightarrow> error + bool) option"
  input_fn :: "('a payload \<Rightarrow> error + 'a payload) option"

record 'a query_pipeline =
  modules :: "(string \<times> 'a qp_module) list"
  links :: "'a link list"

text \<open>
  The lambdas of the notebook applied to what the source module returned: Python's
  \<^verbatim>\<open>x["index"]\<close> raises TypeError on a string, a list or a response object.
\<close>

definition on_choice :: "(dict \<Rightarrow> error + 'b) \<Rightarrow> 'a payload \<Rightarrow> error + 'b" where
  "on_choice f x = (case x of Choice d \<Rightarrow> f d | Val v \<Rightarrow> Inl TypeError | Obj a \<Rightarrow> Inl TypeError)"

definition as_payload :: "error + pyval \<Rightarrow> error + 'a payload" where
  "as_payload r = then_do r (\<lambda>v. Inr (Val v))"

text \<open>A keyword argument that has to be a string (the query).\<close>

definition str_arg :: "'a kwargs \<Rightarrow> string \<Rightarrow> error + string" where
  "str_arg kw k =
     (case kw k of
        None \<Rightarrow> Inl (KeyError k)
      | Some (Val (StrV s)) \<Rightarrow> Inr s
      | Some (Val (IntV i)) \<Rightarrow> Inl TypeError
      | Some (Val NoneV) \<Rightarrow> Inl TypeError
      | Some (Choice d) \<Rightarrow> Inl TypeError
      | Some (Obj a) \<Rightarrow> Inl TypeError)"

text \<open>
  The state of one run: the keyword arguments gathered for each module, the modules a
  conditional link that was not taken has removed from the queue, the modules run so far
  (in order), and the output of the last module run.
\<close>

record 'a run_state =
  all_module_inputs :: "string \<Rightarrow> 'a kwargs"
  removed :: "string set"
  executed :: "string list"
  last_output :: "'a payload option"

text \<open>
  Modelled from the spec: the engine of \<^verbatim>\<open>QueryPipeline\<close> (add_link, run), which is
  library code outside the notebooks. The spec has "a directed graph with a selector node
  that conditionally routes a query to one branch or the other", and the notebook "You can
  make the edges in a graph conditional, meaning that they are only picked if certain
  conditions are met". So: modules run in the order of the graph; after a module has run,
  each of its outgoing links whose condition holds (or that has none) hands the output,
  through \<^verbatim>\<open>input_fn\<close> when there is one, to the destination under \<^verbatim>\<open>dest_key\<close> (or
  the destination's own keyword); a link whose condition fails takes its destination out
  of the run. A raise anywhere ends the run with that exception.
\<close>

definition input_key :: "(string \<rightharpoonup> 'a qp_module) \<Rightarrow> 'a link \<Rightarrow> error + string" where
  "input_key mods l =
     (case dest_key l of
        Some k \<Rightarrow> Inr k
      | None \<Rightarrow>
          (case mods (dest l) of
             None \<Rightarrow> Inl (KeyError (dest l))
           | Some m \<Rightarrow>
               (case free_key m of
                  None \<Rightarrow> Inl (ValueError ''dest_key is needed'')
                | Some k \<Rightarrow> Inr k)))"

text \<open>
  Modelled from the spec: a link that is taken adds the value to the keyword arguments
  gathered for its destination.
\<close>

definition deliver :: "string \<Rightarrow> string \<Rightarrow> 'a payload \<Rightarrow> 'a run_state \<Rightarrow> 'a run_state" where
  "deliver d k v st =
     st\<lparr>all_module_inputs := (all_module_inputs st)(d := (all_module_inputs st d)(k \<mapsto> v))\<rparr>"

text \<open>
  Modelled from the spec: the outgoing links of a module that has just run, in the order
  they were added. The output goes through \<^verbatim>\<open>input_fn\<close>, the condition is evaluated on
  the output, and the destination either receives the value or leaves the run.
\<close>

fun process_links ::
  "(string \<rightharpoonup> 'a qp_module) \<Rightarrow> 'a link list \<Rightarrow> 'a payload \<Rightarrow> 'a run_state \<Rightarrow> error + 'a run_state"
where
  "process_links mods [] output st = Inr st"
| "process_links mods (l # ls) output st =
     (case (case input_fn l of None \<Rightarrow> Inr output | Some f \<Rightarrow> f output) of
        Inl e \<Rightarrow> Inl e
      | Inr dest_output \<Rightarrow>
         (case (case condition_fn l of None \<Rightarrow> Inr True | Some c \<Rightarrow> c output) of
            Inl e \<Rightarrow> Inl e
          | Inr add_edge \<Rightarrow>
             (case input_key mods l of
                Inl e \<Rightarrow> Inl e
              | Inr k \<Rightarrow>
                 process_links mods ls output
                   (if add_edge then deliver (dest l) k dest_output st
                    else st\<lparr>removed := insert (dest l) (removed st)\<rparr>))))"

text \<open>
  Modelled from the spec: the modules in the order of the graph; one that a link has
  removed is passed over, any other is run on the keyword arguments gathered for it.
\<close>

fun run_queue ::
  "(string \<rightharpoonup> 'a qp_module) \<Rightarrow> 'a link list \<Rightarrow> string list \<Rightarrow> 'a run_state \<Rightarrow> error + 'a run_state"
where
  "run_queue mods lks [] st = Inr st"
| "run_queue mods lks (k # queue) st =
     (if k \<in> removed st then run_queue mods lks queue st
      else
        (case mods k of
           None \<Rightarrow> Inl (KeyError k)
         | Some m \<Rightarrow>
            (case run_component m (all_module_inputs st k) of
               Inl e \<Rightarrow> Inl e
             | Inr output \<Rightarrow>
                (case process_links mods (filter (\<lambda>l. src l = k) lks) output
                        (st\<lparr>executed := executed st @ [k], last_output := Some output\<rparr>) of
                   Inl e \<Rightarrow> Inl e
                 | Inr st' \<Rightarrow> run_queue mods lks queue st'))))"

text \<open>Modelled from the spec: at the start only the first module has arguments.\<close>

definition start_state :: "string \<Rightarrow> 'a kwargs \<Rightarrow> 'a run_state" where
  "start_state root kw =
     \<lparr>all_module_inputs = (\<lambda>k. Map.empty)(root := kw), removed = {}, executed = [],
      last_output = None\<rparr>"

text \<open>
  Modelled from the spec: \<^verbatim>\<open>qp.run\<close> with keyword arguments, which go to the first
  module.
\<close>

definition run_pipeline :: "'a query_pipeline \<Rightarrow> 'a kwargs \<Rightarrow> error + 'a run_state" where
  "run_pipeline qp kw =
     (case modules qp of
        [] \<Rightarrow> Inl (ValueError ''empty pipeline'')
      | (root, m) # rest \<Rightarrow>
          run_queue (map_of (modules qp)) (links qp) (map fst (modules qp)) (start_state root kw))"

text \<open>Modelled from the spec: the response of a run is the output of its last module.\<close>

definition response_of :: "error + 'a run_state \<Rightarrow> error + 'a payload" where
  "response_of r =
     then_do r (\<lambda>st. case last_output st of None \<Rightarrow> Inl (ValueError ''no output'') | Some v \<Rightarrow> Inr v)"

text \<open>
  Modelled from the spec: \<^verbatim>\<open>QueryPipeline(chain=[m1, ..., mn])\<close>, library code outside the
  notebooks: a pipeline whose modules run one after the other, each on the output of the
  one before (the recorded output of the summary chain shows the prompt's output as the
  language model's \<^verbatim>\<open>messages\<close> and the model's output as the query engine's
  \<^verbatim>\<open>input\<close>).
\<close>

text \<open>Modelled from the spec: running a module on one input, given under its keyword.\<close>

definition run_on :: "'a qp_module \<Rightarrow> 'a payload \<Rightarrow> error + 'a payload" where
  "run_on m x =
     (case free_key m of
        None \<Rightarrow> Inl (ValueError ''dest_key is needed'')
      | Some k \<Rightarrow> run_component m [k \<mapsto> x])"

fun run_chain :: "'a qp_module list \<Rightarrow> 'a payload \<Rightarrow> error + 'a payload" where
  "run_chain [] x = Inr x"
| "run_chain (m # ms) x =
     (case run_on m x of Inl e \<Rightarrow> Inl e | Inr y \<Rightarrow> run_chain ms y)"

text \<open>
  Modelled from the spec: a chain used as a module of another pipeline (a component of
  the router) takes the input of its first module.
\<close>

definition chain :: "'a qp_module list \<Rightarrow> 'a qp_module" where
  "chain ms =
     \<lparr>free_key = (case ms of [] \<Rightarrow> None | m # rest \<Rightarrow> free_key m),
      run_component = (\<lambda>kw.
        case (case ms of [] \<Rightarrow> None | m # rest \<Rightarrow> free_key m) of
          None \<Rightarrow> Inl (ValueError ''dest_key is needed'')
        | Some k \<Rightarrow> (case kw k of None \<Rightarrow> Inl (KeyError k) | Some x \<Rightarrow> run_chain ms x))\<rparr>"

text \<open>
  Indexing a Python list, \<^verbatim>\<open>xs[i]\<close>: positions \<open>0 .. len - 1\<close> from the front,
  \<open>-1 .. -len\<close> from the back, IndexError outside.
\<close>

definition list_index :: "'b list \<Rightarrow> int \<Rightarrow> error + 'b" where
  "list_index xs i =
     (if 0 \<le> i \<and> i < int (length xs) then Inr (xs ! nat i)
      else if i < 0 \<and> - int (length xs) \<le> i then Inr (xs ! nat (int (length xs) + i))
      else Inl IndexError)"

text \<open>
  Modelled from the spec: \<^verbatim>\<open>RouterComponent(selector=, choices=, components=)\<close>, library
  code outside the notebooks. The notebook: "takes in one of our Selector modules, and
  given a set of choices (with string descriptions), chooses the relevant choice and calls
  the relevant sub-component": the component at the selector's index, run on the query.
\<close>

definition RouterComponent :: "selector \<Rightarrow> string list \<Rightarrow> 'a qp_module list \<Rightarrow> 'a qp_module" where
  "RouterComponent sel chs components =
     \<lparr>free_key = Some ''query'',
      run_component = (\<lambda>kw.
        then_do (str_arg kw ''query'') (\<lambda>q.
        then_do (sel chs q) (\<lambda>output.
        then_do (list_index components (ind output)) (\<lambda>c.
          run_on c (Val (StrV q))))))\<rparr>"

section \<open>The routing notebook: modules and pipelines\<close>

text \<open>
  What the notebook takes from the framework, as parameters: the language model
  \<^verbatim>\<open>OpenAI(model=...)\<close>, the synthesizer \<^verbatim>\<open>TreeSummarize\<close> over a language model,
  the retrievers and query engines of the two indices built from the essay
  (\<^verbatim>\<open>vector_index.as_retriever(similarity_top_k=...)\<close> and so on), and the selector.
  Each is given by what running it on its keyword arguments returns.
\<close>

record 'a framework =
  OpenAI :: "string \<Rightarrow> 'a kwargs \<Rightarrow> error + 'a payload"
  TreeSummarize :: "'a qp_module \<Rightarrow> 'a kwargs \<Rightarrow> error + 'a payload"
  vector_index_as_retriever :: "nat \<Rightarrow> 'a kwargs \<Rightarrow> error + 'a payload"
  vector_index_as_query_engine :: "nat \<Rightarrow> 'a kwargs \<Rightarrow> error + 'a payload"
  summary_index_as_retriever :: "'a kwargs \<Rightarrow> error + 'a payload"
  summary_index_as_query_engine :: "'a kwargs \<Rightarrow> error + 'a payload"
  LLMSingleSelector :: selector

text \<open>
  Modelled from the spec: \<^verbatim>\<open>PromptTemplate(...)\<close> as a module, library code outside the
  notebooks. A template is a text with \<^verbatim>\<open>{field}\<close> places (Python's format strings); the
  module fills the places from its keyword arguments (the recorded output shows the
  rewrite prompt with the query in the place of \<^verbatim>\<open>{query_str}\<close>).
\<close>

datatype part = Lit string | Field string

fun format_parts :: "part list \<Rightarrow> 'a kwargs \<Rightarrow> error + string" where
  "format_parts [] kw = Inr []"
| "format_parts (Lit s # ps) kw =
     (case format_parts ps kw of Inl e \<Rightarrow> Inl e | Inr t \<Rightarrow> Inr (s @ t))"
| "format_parts (Field f # ps) kw =
     (case str_arg kw f of
        Inl e \<Rightarrow> Inl e
      | Inr v \<Rightarrow> (case format_parts ps kw of Inl e \<Rightarrow> Inl e | Inr t \<Rightarrow> Inr (v @ t)))"

definition PromptTemplate :: "part list \<Rightarrow> 'a qp_module" where
  "PromptTemplate t =
     \<lparr>free_key = (case [f. Field f \<leftarrow> t] of [f] \<Rightarrow> Some f | _ \<Rightarrow> None),
      run_component = (\<lambda>kw. then_do (format_parts t kw) (\<lambda>s. Inr (Val (StrV s))))\<rparr>"

text \<open>The cell "Define Modules".\<close>

definition summary_qrewrite_str :: "part list" where
  "summary_qrewrite_str =
     [Lit (''Here's a question:'' @ [CHR 0x0A]),
      Field ''query_str'',
      Lit ([CHR 0x0A, CHR 0x0A]
        @ ''You are responsible for feeding the question to an agent that given context will try to answer the question.''
        @ [CHR 0x0A]
        @ ''The context may or may not be relevant. Rewrite the question to highlight the fact that''
        @ [CHR 0x0A]
        @ ''only some pieces of context (or none) maybe be relevant.''
        @ [CHR 0x0A])]"

definition summary_qrewrite_prompt :: "'a qp_module" where
  "summary_qrewrite_prompt = PromptTemplate summary_qrewrite_str"

definition llm :: "'a framework \<Rightarrow> 'a qp_module" where
  "llm fw = \<lparr>free_key = Some ''messages'', run_component = OpenAI fw ''gpt-3.5-turbo''\<rparr>"

definition summarizer :: "'a framework \<Rightarrow> 'a qp_module" where
  "summarizer fw = \<lparr>free_key = None, run_component = TreeSummarize fw (llm fw)\<rparr>"

definition vector_retriever :: "'a framework \<Rightarrow> 'a qp_module" where
  "vector_retriever fw = \<lparr>free_key = Some ''input'', run_component = vector_index_as_retriever fw 2\<rparr>"

definition vector_query_engine :: "'a framework \<Rightarrow> 'a qp_module" where
  "vector_query_engine fw =
     \<lparr>free_key = Some ''input'', run_component = vector_index_as_query_engine fw 2\<rparr>"

definition summary_retriever :: "'a framework \<Rightarrow> 'a qp_module" where
  "summary_retriever fw = \<lparr>free_key = Some ''input'', run_component = summary_index_as_retriever fw\<rparr>"

definition summary_query_engine :: "'a framework \<Rightarrow> 'a qp_module" where
  "summary_query_engine fw =
     \<lparr>free_key = Some ''input'', run_component = summary_index_as_query_engine fw\<rparr>"

text \<open>The cell "Construct Query Pipelines": two chains joined by a router.\<close>

definition vector_chain :: "'a framework \<Rightarrow> 'a qp_module" where
  "vector_chain fw = chain [vector_query_engine fw]"

definition summary_chain :: "'a framework \<Rightarrow> 'a qp_module" where
  "summary_chain fw = chain [summary_qrewrite_prompt, llm fw, summary_query_engine fw]"

definition router_c :: "'a framework \<Rightarrow> 'a qp_module" where
  "router_c fw = RouterComponent (LLMSingleSelector fw) choices [vector_chain fw, summary_chain fw]"

text \<open>\<^verbatim>\<open>qp = QueryPipeline(chain=[router_c], verbose=True)\<close> and \<^verbatim>\<open>qp.run(query)\<close>.\<close>

definition qp_router_run :: "'a framework \<Rightarrow> string \<Rightarrow> error + 'a payload" where
  "qp_router_run fw query = run_on (chain [router_c fw]) (Val (StrV query))"

text \<open>
  Modelled from the spec: \<^verbatim>\<open>InputComponent()\<close>, library code outside the notebooks: it
  hands on what the run was given under \<^verbatim>\<open>input\<close>.
\<close>

definition InputComponent :: "'a qp_module" where
  "InputComponent =
     \<lparr>free_key = Some ''input'',
      run_component = (\<lambda>kw. case kw ''input'' of None \<Rightarrow> Inl (KeyError ''input'') | Some v \<Rightarrow> Inr v)\<rparr>"

text \<open>
  Modelled from the spec: \<^verbatim>\<open>FnComponent(fn=select_choice)\<close>, library code outside the
  notebooks: it calls the function on its keyword argument \<^verbatim>\<open>query\<close>; what the function
  returns or raises is the module's.
\<close>

definition FnComponent_select_choice :: "selector \<Rightarrow> 'a qp_module" where
  "FnComponent_select_choice sel =
     \<lparr>free_key = Some ''query'',
      run_component = (\<lambda>kw.
        then_do (str_arg kw ''query'') (\<lambda>q.
        then_do (select_choice sel q) (\<lambda>d. Inr (Choice d))))\<rparr>"

text \<open>
  The cells "Setup Query Pipeline with Conditional Links": the modules of
  \<^verbatim>\<open>QueryPipeline(modules={...})\<close> and the six \<^verbatim>\<open>qp.add_link\<close> calls, in order.
\<close>

definition qp_modules :: "'a framework \<Rightarrow> (string \<times> 'a qp_module) list" where
  "qp_modules fw =
     [(''input'', InputComponent),
      (''selector'', FnComponent_select_choice (LLMSingleSelector fw)),
      (''vector_retriever'', vector_retriever fw),
      (''summary_retriever'', summary_retriever fw),
      (''summarizer'', summarizer fw)]"

definition qp_links :: "'a link list" where
  "qp_links =
     [\<lparr>src = ''input'', dest = ''selector'', dest_key = None,
        condition_fn = None, input_fn = None\<rparr>,
      \<lparr>src = ''selector'', dest = ''vector_retriever'', dest_key = None,
        condition_fn = Some (on_choice condition_fn_vector),
        input_fn = Some (\<lambda>x. as_payload (on_choice input_fn_query x))\<rparr>,
      \<lparr>src = ''selector'', dest = ''summary_retriever'', dest_key = None,
        condition_fn = Some (on_choice condition_fn_summary),
        input_fn = Some (\<lambda>x. as_payload (on_choice input_fn_query x))\<rparr>,
      \<lparr>src = ''vector_retriever'', dest = ''summarizer'', dest_key = Some ''nodes'',
        condition_fn = None, input_fn = None\<rparr>,
      \<lparr>src = ''summary_retriever'', dest = ''summarizer'', dest_key = Some ''nodes'',
        condition_fn = None, input_fn = None\<rparr>,
      \<lparr>src = ''input'', dest = ''summarizer'', dest_key = Some ''query_str'',
        condition_fn = None, input_fn = None\<rparr>]"

definition qp :: "'a framework \<Rightarrow> 'a query_pipeline" where
  "qp fw = \<lparr>modules = qp_modules fw, links = qp_links\<rparr>"

text \<open>\<^verbatim>\<open>response = qp.run(input=query)\<close>.\<close>

definition qp_run :: "'a framework \<Rightarrow> string \<Rightarrow> error + 'a run_state" where
  "qp_run fw query = run_pipeline (qp fw) [''input'' \<mapsto> Val (StrV query)]"

text \<open>\<^verbatim>\<open>print(str(response))\<close>: what the cell writes, given the framework's \<^verbatim>\<open>str\<close>.\<close>

definition print_response :: "('a payload \<Rightarrow> string) \<Rightarrow> error + 'a payload \<Rightarrow> error + string" where
  "print_response str_of response = then_do response (\<lambda>r. Inr (str_of r))"

text \<open>The modules a run has executed, in order, when it ends without a raise.\<close>

definition modules_run :: "error + 'a run_state \<Rightarrow> error + string list" where
  "modules_run r = then_do r (\<lambda>st. Inr (executed st))"

text \<open>
  A framework to run the pipelines on: the selector answers with a fixed index, the
  language model with a fixed text, a retriever names itself, a query engine answers with
  the question it was asked, and the synthesizer says what nodes it was given; it needs
  them, and raises when a run gives it none (the recorded output shows the summarizer run
  with both \<^verbatim>\<open>query_str\<close> and \<^verbatim>\<open>nodes\<close>).
\<close>

definition asked :: "string \<Rightarrow> 'a kwargs \<Rightarrow> error + string payload" where
  "asked who kw =
     (case kw ''input'' of
        Some (Val (StrV s)) \<Rightarrow> Inr (Obj (who @ '': '' @ s))
      | Some (Val (IntV i)) \<Rightarrow> Inl TypeError
      | Some (Val NoneV) \<Rightarrow> Inl TypeError
      | Some (Choice d) \<Rightarrow> Inl TypeError
      | Some (Obj a) \<Rightarrow> Inl TypeError
      | None \<Rightarrow> Inl (KeyError ''input''))"

definition given_nodes :: "string kwargs \<Rightarrow> error + string payload" where
  "given_nodes kw =
     (case kw ''nodes'' of
        Some (Obj n) \<Rightarrow> Inr (Obj (''summary of '' @ n))
      | Some (Val v) \<Rightarrow> Inl TypeError
      | Some (Choice d) \<Rightarrow> Inl TypeError
      | None \<Rightarrow> Inl (ValueError ''nodes is required''))"

definition demo_framework :: "int \<Rightarrow> string \<Rightarrow> string framework" where
  "demo_framework i rewritten =
     \<lparr>OpenAI = (\<lambda>model kw. Inr (Val (StrV rewritten))),
      TreeSummarize = (\<lambda>m kw. given_nodes kw),
      vector_index_as_retriever = (\<lambda>k kw. Inr (Obj ''vector nodes'')),
      vector_index_as_query_engine = (\<lambda>k kw. asked ''vector engine'' kw),
      summary_index_as_retriever = (\<lambda>kw. Inr (Obj ''summary nodes'')),
      summary_index_as_query_engine = (\<lambda>kw. asked ''summary engine'' kw),
      LLMSingleSelector = (\<lambda>chs q. Inr \<lparr>ind = i, reason = ''chosen''\<rparr>)\<rparr>"

section \<open>The Slack notebook\<close>

text \<open>
  The process-wide settings the notebook writes (\<^verbatim>\<open>os.environ\<close>, \<^verbatim>\<open>openai.api_key\<close>)
  and every external call can read.
\<close>

record process_globals =
  environ :: "string \<rightharpoonup> string"
  openai_api_key :: "string option"

text \<open>The external calls of the notebook, with their arguments, as they are made.\<close>

datatype ('d, 'i, 'q) call =
    Call_load_data "string option" "string list"
  | Call_from_documents "'d list"
  | Call_as_query_engine 'i
  | Call_query 'q string

record ('d, 'i, 'q) notebook_state =
  globals :: process_globals
  calls :: "('d, 'i, 'q) call list"
  displayed :: "string list"

text \<open>
  What the notebook takes from the framework, as parameters:
  \<^verbatim>\<open>SlackReader(slack_token=...).load_data(channel_ids=...)\<close>,
  \<^verbatim>\<open>SummaryIndex.from_documents\<close>, \<^verbatim>\<open>index.as_query_engine()\<close>,
  \<^verbatim>\<open>query_engine.query\<close> and the \<^verbatim>\<open>str\<close> of a response. Each may raise.
\<close>

record ('d, 'i, 'q, 'r) slack_framework =
  load_data :: "process_globals \<Rightarrow> string option \<Rightarrow> string list \<Rightarrow> error + 'd list"
  from_documents :: "process_globals \<Rightarrow> 'd list \<Rightarrow> error + 'i"
  as_query_engine :: "process_globals \<Rightarrow> 'i \<Rightarrow> error + 'q"
  query :: "process_globals \<Rightarrow> 'q \<Rightarrow> string \<Rightarrow> error + 'r"
  str_response :: "'r \<Rightarrow> string"

text \<open>
  One external call inside the script: it is recorded, and the rest of the script runs
  only if it did not raise. No cell has a \<^verbatim>\<open>try\<close>.
\<close>

definition external ::
  "('d, 'i, 'q) call \<Rightarrow> (process_globals \<Rightarrow> error + 'a) \<Rightarrow>
   ('a \<Rightarrow> ('d, 'i, 'q) notebook_state \<Rightarrow> (error + 'b) \<times> ('d, 'i, 'q) notebook_state) \<Rightarrow>
   ('d, 'i, 'q) notebook_state \<Rightarrow> (error + 'b) \<times> ('d, 'i, 'q) notebook_state"
where
  "external c f k st =
     (let st' = st\<lparr>calls := calls st @ [c]\<rparr>
      in case f (globals st) of Inl e \<Rightarrow> (Inl e, st') | Inr v \<Rightarrow> k v st')"

text \<open>\<^verbatim>\<open>os.environ["SLACK_BOT_TOKEN"] = "xoxb-"\<close> and \<^verbatim>\<open>openai.api_key = "sk-"\<close>.\<close>

definition set_credentials :: "('d, 'i, 'q) notebook_state \<Rightarrow> ('d, 'i, 'q) notebook_state" where
  "set_credentials st =
     st\<lparr>globals := (globals st)
        \<lparr>environ := (environ (globals st))(''SLACK_BOT_TOKEN'' \<mapsto> ''xoxb-''),
         openai_api_key := Some ''sk-''\<rparr>\<rparr>"

text \<open>
  The code cells in order (the logging set-up and the imports left out):
  \<^verbatim>\<open>
  slack_token = os.getenv("SLACK_BOT_TOKEN")
  channel_ids = ["<channel_id>"]
  documents = SlackReader(slack_token=slack_token).load_data(channel_ids=channel_ids)
  index = SummaryIndex.from_documents(documents)
  query_engine = index.as_query_engine()
  response = query_engine.query("<query_text>")
  display(Markdown(f"<b>{response}</b>"))
  \<close>
\<close>

definition slack_demo ::
  "('d, 'i, 'q, 'r) slack_framework \<Rightarrow> ('d, 'i, 'q) notebook_state \<Rightarrow>
   (error + 'r) \<times> ('d, 'i, 'q) notebook_state"
where
  "slack_demo fw st0 =
     (let st = set_credentials st0;
          slack_token = environ (globals st) ''SLACK_BOT_TOKEN'';
          channel_ids = [''<channel_id>'']
      in external (Call_load_data slack_token channel_ids)
           (\<lambda>g. load_data fw g slack_token channel_ids) (\<lambda>documents.
         external (Call_from_documents documents)
           (\<lambda>g. from_documents fw g documents) (\<lambda>index.
         external (Call_as_query_engine index)
           (\<lambda>g. as_query_engine fw g index) (\<lambda>query_engine.
         external (Call_query query_engine ''<query_text>'')
           (\<lambda>g. query fw g query_engine ''<query_text>'') (\<lambda>response st'.
           (Inr response,
            st'\<lparr>displayed := displayed st' @ [''<b>'' @ str_response fw response @ ''</b>'']\<rparr>)))))
         st)"

text \<open>
  Modelled from the spec: \<^verbatim>\<open>SlackReader.load_data\<close>, library code outside the
  notebooks. The spec: "A chat-workspace API consumed via a bot token, returning message
  history for given channel identifiers", which the reader "converts into indexable
  document objects". The workspace API (token and channel to its messages) and the
  conversion of a channel's messages into a document are parameters.
\<close>

fun fetch_channels ::
  "(string option \<Rightarrow> string \<Rightarrow> error + 'm list) \<Rightarrow> (string \<Rightarrow> 'm list \<Rightarrow> 'd) \<Rightarrow>
   string option \<Rightarrow> string list \<Rightarrow> error + 'd list"
where
  "fetch_channels history to_document token [] = Inr []"
| "fetch_channels history to_document token (c # cs) =
     (case history token c of
        Inl e \<Rightarrow> Inl e
      | Inr messages \<Rightarrow>
         (case fetch_channels history to_document token cs of
            Inl e \<Rightarrow> Inl e
          | Inr ds \<Rightarrow> Inr (to_document c messages # ds)))"

definition SlackReader ::
  "(string option \<Rightarrow> string \<Rightarrow> error + 'm list) \<Rightarrow> (string \<Rightarrow> 'm list \<Rightarrow> 'd) \<Rightarrow>
   process_globals \<Rightarrow> string option \<Rightarrow> string list \<Rightarrow> error + 'd list"
where
  "SlackReader history to_document g slack_token channel_ids =
     fetch_channels history to_document slack_token channel_ids"

text \<open>
  A workspace to run the Slack notebook on: a channel's history is one message naming
  the channel and the token, a document is the channel with its messages, an index and a
  query engine are the documents, and the answer counts them.
\<close>

definition demo_history :: "string option \<Rightarrow> string \<Rightarrow> error + string list" where
  "demo_history token c =
     (case token of
        None \<Rightarrow> Inl (ExternalError ''not_authed'')
      | Some t \<Rightarrow> Inr [''message of '' @ c @ '' read with '' @ t])"

definition demo_slack :: "(string \<times> string list, (string \<times> string list) list,
    (string \<times> string list) list, nat) slack_framework" where
  "demo_slack =
     \<lparr>load_data = SlackReader demo_history Pair,
      from_documents = (\<lambda>g ds. Inr ds),
      as_query_engine = (\<lambda>g ix. Inr ix),
      query = (\<lambda>g qe text.
        case openai_api_key g of
          None \<Rightarrow> Inl (ExternalError ''no API key'')
        | Some key \<Rightarrow> Inr (length qe)),
      str_response = (\<lambda>n. replicate n CHR ''*'')\<rparr>"

definition fresh_notebook :: "('d, 'i, 'q) notebook_state" where
  "fresh_notebook =
     \<lparr>globals = \<lparr>environ = Map.empty, openai_api_key = None\<rparr>, calls = [], displayed = []\<rparr>"

section \<open>The notebooks from the first cell to the last\<close>






text \<open>The Slack notebook: the two assignments of the credentials, one by one.\<close>

definition set_bot_token :: "('d, 'i, 'q) notebook_state \<Rightarrow> ('d, 'i, 'q) notebook_state" where
  "set_bot_token st =
     st\<lparr>globals := (globals st)\<lparr>environ := (environ (globals st))(''SLACK_BOT_TOKEN'' \<mapsto> ''xoxb-'')\<rparr>\<rparr>"

definition set_api_key :: "('d, 'i, 'q) notebook_state \<Rightarrow> ('d, 'i, 'q) notebook_state" where
  "set_api_key st = st\<lparr>globals := (globals st)\<lparr>openai_api_key := Some ''sk-''\<rparr>\<rparr>"

text \<open>
  The cells after the imports, from \<^verbatim>\<open>slack_token = os.getenv("SLACK_BOT_TOKEN")\<close> to
  \<^verbatim>\<open>display(...)\<close>: what \<open>slack_demo\<close> does once the credentials are set.
\<close>

definition slack_calls ::
  "('d, 'i, 'q, 'r) slack_framework \<Rightarrow> ('d, 'i, 'q) notebook_state \<Rightarrow>
   (error + 'r) \<times> ('d, 'i, 'q) notebook_state"
where
  "slack_calls fw st =
     (let slack_token = environ (globals st) ''SLACK_BOT_TOKEN'';
          channel_ids = [''<channel_id>'']
      in external (Call_load_data slack_token channel_ids)
           (\<lambda>g. load_data fw g slack_token channel_ids) (\<lambda>documents.
         external (Call_from_documents documents)
           (\<lambda>g. from_documents fw g documents) (\<lambda>index.
         external (Call_as_query_engine index)
           (\<lambda>g. as_query_engine fw g index) (\<lambda>query_engine.
         external (Call_query query_engine ''<query_text>'')
           (\<lambda>g. query fw g query_engine ''<query_text>'') (\<lambda>response st'.
           (Inr response,
            st'\<lparr>displayed := displayed st' @ [''<b>'' @ str_response fw response @ ''</b>'']\<rparr>)))))
         st)"






section \<open>Facts about the built-ins\<close>

lemma then_do_Inr [simp]: "then_do (Inr v) k = k v"
  by (simp add: then_do_def)

lemma then_do_Inl [simp]: "then_do (Inl e) k = Inl e"
  by (simp add: then_do_def)

lemma digit_val_digit_char: "d < 10 \<Longrightarrow> digit_val (digit_char d) = d"
  by (simp add: digit_val_def digit_char_def)

lemma digit_char_not_minus: "d < 10 \<Longrightarrow> digit_char d \<noteq> CHR ''-''"
proof
  assume d: "d < 10" and eq: "digit_char d = CHR ''-''"
  have "of_char (digit_char d) = (48 + d :: nat)"
    using d by (simp add: digit_char_def)
  moreover have "of_char (CHR ''-'') = (45 :: nat)" by simp
  ultimately show False using eq by simp
qed

lemma nat_of_digits_snoc:
  "nat_of_digits (s @ [c]) = 10 * nat_of_digits s + digit_val c"
  by (simp add: nat_of_digits_def)

lemma nat_of_digits_str_nat: "nat_of_digits (str_nat n) = n"
proof (induction n rule: str_nat.induct)
  case (1 n)
  show ?case
  proof (cases "n < 10")
    case True
    then show ?thesis
      by (subst str_nat.simps) (simp add: nat_of_digits_def digit_val_digit_char)
  next
    case False
    then have "nat_of_digits (str_nat (n div 10)) = n div 10"
      using "1.IH" by simp
    with False show ?thesis
      by (subst str_nat.simps) (simp add: nat_of_digits_snoc digit_val_digit_char)
  qed
qed

lemma str_nat_not_Nil: "str_nat n \<noteq> []"
  by (subst str_nat.simps) simp

lemma hd_str_nat_not_minus: "hd (str_nat n) \<noteq> CHR ''-''"
proof (induction n rule: str_nat.induct)
  case (1 n)
  show ?case
  proof (cases "n < 10")
    case True
    then show ?thesis
      by (subst str_nat.simps) (simp add: digit_char_not_minus)
  next
    case False
    then have "hd (str_nat (n div 10)) \<noteq> CHR ''-''"
      using "1.IH" by simp
    with False show ?thesis
      by (subst str_nat.simps) (simp add: str_nat_not_Nil)
  qed
qed

lemma int_of_str_str_int: "int_of_str (str_int i) = i"
proof (cases "i < 0")
  case True
  then show ?thesis
    by (simp add: int_of_str_def str_int_def nat_of_digits_str_nat)
next
  case False
  obtain c cs where s: "str_nat (nat i) = c # cs"
    using str_nat_not_Nil [of "nat i"] by (cases "str_nat (nat i)") auto
  have "c \<noteq> CHR ''-''"
    using hd_str_nat_not_minus [of "nat i"] s by simp
  moreover have "nat_of_digits (c # cs) = nat i"
    using nat_of_digits_str_nat [of "nat i"] s by simp
  ultimately show ?thesis
    using False s by (simp add: int_of_str_def str_int_def)
qed

lemma str_int_eq_iff: "str_int i = str_int j \<longleftrightarrow> i = j"
  using int_of_str_str_int by metis

lemma str_int_0: "str_int 0 = ''0''"
  by code_simp

lemma str_int_1: "str_int 1 = ''1''"
  by code_simp

lemma str_int_is_0: "str_int i = ''0'' \<longleftrightarrow> i = 0"
  using str_int_eq_iff [of i 0] by (simp add: str_int_0)

lemma str_int_is_1: "str_int i = ''1'' \<longleftrightarrow> i = 1"
  using str_int_eq_iff [of i 1] by (simp add: str_int_1)

section \<open>Facts about the selector wrapper and the link functions\<close>

lemma select_choice_Inr:
  "sel choices q = Inr output \<Longrightarrow>
   select_choice sel q = Inr [''query'' \<mapsto> StrV q, ''index'' \<mapsto> StrV (str_int (ind output))]"
  by (simp add: select_choice_def)

lemma select_choice_Inl: "sel choices q = Inl e \<Longrightarrow> select_choice sel q = Inl e"
  by (simp add: select_choice_def)

lemma condition_fn_vector_choice:
  "condition_fn_vector [''query'' \<mapsto> StrV q, ''index'' \<mapsto> StrV (str_int i)] = Inr (i = 0)"
  by (simp add: condition_fn_vector_def getitem_def str_int_is_0)

lemma condition_fn_summary_choice:
  "condition_fn_summary [''query'' \<mapsto> StrV q, ''index'' \<mapsto> StrV (str_int i)] = Inr (i = 1)"
  by (simp add: condition_fn_summary_def getitem_def str_int_is_1)

lemma input_fn_query_choice:
  "input_fn_query [''query'' \<mapsto> StrV q, ''index'' \<mapsto> StrV (str_int i)] = Inr (StrV q)"
  by (simp add: input_fn_query_def getitem_def)

lemmas choice_simps = select_choice_Inr condition_fn_vector_choice condition_fn_summary_choice
  input_fn_query_choice

lemma then_do_eq_Inr: "then_do r k = Inr y \<longleftrightarrow> (\<exists>v. r = Inr v \<and> k v = Inr y)"
  by (cases r) simp_all

lemma sum_case_id: "(case r of Inl e \<Rightarrow> Inl e | Inr y \<Rightarrow> Inr y) = r"
  by (cases r) simp_all

section \<open>Running the pipeline with conditional links\<close>

text \<open>
  The run of the graph, unfolded once for each way the selector can answer: it raises,
  it answers 0, it answers 1, it answers anything else.
\<close>

lemmas qp_defs = qp_run_def run_pipeline_def qp_def qp_modules_def qp_links_def start_state_def
  deliver_def input_key_def InputComponent_def FnComponent_select_choice_def vector_retriever_def
  summary_retriever_def summarizer_def str_arg_def on_choice_def as_payload_def response_of_def
  modules_run_def

lemma qp_run_selector_raises:
  assumes "LLMSingleSelector fw choices q = Inl e"
  shows "qp_run fw q = Inl e"
  using assms by (simp add: qp_defs select_choice_Inl)

lemma qp_run_vector:
  assumes "LLMSingleSelector fw choices q = Inr output" and "ind output = 0"
  shows "qp_run fw q =
     then_do (vector_index_as_retriever fw 2 [''input'' \<mapsto> Val (StrV q)]) (\<lambda>nodes.
     then_do (TreeSummarize fw (llm fw) [''query_str'' \<mapsto> Val (StrV q), ''nodes'' \<mapsto> nodes]) (\<lambda>r.
       Inr \<lparr>all_module_inputs = (\<lambda>k. Map.empty)
              (''input'' := [''input'' \<mapsto> Val (StrV q)],
               ''selector'' := [''query'' \<mapsto> Val (StrV q)],
               ''summarizer'' := [''query_str'' \<mapsto> Val (StrV q), ''nodes'' \<mapsto> nodes],
               ''vector_retriever'' := [''input'' \<mapsto> Val (StrV q)]),
             removed = {''summary_retriever''},
             executed = [''input'', ''selector'', ''vector_retriever'', ''summarizer''],
             last_output = Some r\<rparr>))"
  using assms
  apply (simp add: qp_defs choice_simps)
  apply (simp add: qp_defs split: sum.splits)
  apply (auto simp: fun_eq_iff)
  done

lemma qp_run_summary:
  assumes "LLMSingleSelector fw choices q = Inr output" and "ind output = 1"
  shows "qp_run fw q =
     then_do (summary_index_as_retriever fw [''input'' \<mapsto> Val (StrV q)]) (\<lambda>nodes.
     then_do (TreeSummarize fw (llm fw) [''query_str'' \<mapsto> Val (StrV q), ''nodes'' \<mapsto> nodes]) (\<lambda>r.
       Inr \<lparr>all_module_inputs = (\<lambda>k. Map.empty)
              (''input'' := [''input'' \<mapsto> Val (StrV q)],
               ''selector'' := [''query'' \<mapsto> Val (StrV q)],
               ''summarizer'' := [''query_str'' \<mapsto> Val (StrV q), ''nodes'' \<mapsto> nodes],
               ''summary_retriever'' := [''input'' \<mapsto> Val (StrV q)]),
             removed = {''vector_retriever''},
             executed = [''input'', ''selector'', ''summary_retriever'', ''summarizer''],
             last_output = Some r\<rparr>))"
  using assms
  apply (simp add: qp_defs choice_simps)
  apply (simp add: qp_defs split: sum.splits)
  apply (auto simp: fun_eq_iff)
  done

lemma qp_run_neither:
  assumes "LLMSingleSelector fw choices q = Inr output" and "ind output \<noteq> 0" and "ind output \<noteq> 1"
  shows "qp_run fw q =
     then_do (TreeSummarize fw (llm fw) [''query_str'' \<mapsto> Val (StrV q)]) (\<lambda>r.
       Inr \<lparr>all_module_inputs = (\<lambda>k. Map.empty)
              (''input'' := [''input'' \<mapsto> Val (StrV q)],
               ''selector'' := [''query'' \<mapsto> Val (StrV q)],
               ''summarizer'' := [''query_str'' \<mapsto> Val (StrV q)]),
             removed = {''vector_retriever'', ''summary_retriever''},
             executed = [''input'', ''selector'', ''summarizer''],
             last_output = Some r\<rparr>)"
  using assms
  apply (simp add: qp_defs choice_simps)
  apply (simp add: qp_defs split: sum.splits)
  apply (auto simp: fun_eq_iff)
  done

lemma executed_qp_run:
  assumes "LLMSingleSelector fw choices q = Inr output" and "qp_run fw q = Inr st"
  shows "executed st = [''input'', ''selector'']
           @ (if ind output = 0 then [''vector_retriever'']
              else if ind output = 1 then [''summary_retriever''] else [])
           @ [''summarizer'']"
proof -
  consider "ind output = 0" | "ind output = 1" | "ind output \<noteq> 0" "ind output \<noteq> 1"
    by blast
  then show ?thesis
  proof cases
    case 1
    with assms show ?thesis
      by (auto simp: qp_run_vector then_do_eq_Inr)
  next
    case 2
    with assms show ?thesis
      by (auto simp: qp_run_summary then_do_eq_Inr)
  next
    case 3
    with assms show ?thesis
      by (auto simp: qp_run_neither then_do_eq_Inr)
  qed
qed

lemma response_of_qp_run:
  assumes "LLMSingleSelector fw choices q = Inr output"
  shows "response_of (qp_run fw q) =
     (if ind output = 0 then
        then_do (vector_index_as_retriever fw 2 [''input'' \<mapsto> Val (StrV q)]) (\<lambda>nodes.
          TreeSummarize fw (llm fw) [''query_str'' \<mapsto> Val (StrV q), ''nodes'' \<mapsto> nodes])
      else if ind output = 1 then
        then_do (summary_index_as_retriever fw [''input'' \<mapsto> Val (StrV q)]) (\<lambda>nodes.
          TreeSummarize fw (llm fw) [''query_str'' \<mapsto> Val (StrV q), ''nodes'' \<mapsto> nodes])
      else TreeSummarize fw (llm fw) [''query_str'' \<mapsto> Val (StrV q)])"
proof -
  consider "ind output = 0" | "ind output = 1" | "ind output \<noteq> 0" "ind output \<noteq> 1"
    by blast
  then show ?thesis
  proof cases
    case 1
    with assms show ?thesis
      by (simp add: qp_run_vector response_of_def then_do_def split: sum.splits)
  next
    case 2
    with assms show ?thesis
      by (simp add: qp_run_summary response_of_def then_do_def split: sum.splits)
  next
    case 3
    with assms show ?thesis
      by (simp add: qp_run_neither response_of_def then_do_def split: sum.splits)
  qed
qed

section \<open>Running the chains and the router\<close>

lemma run_chain_single: "run_chain [m] x = run_on m x"
  by (cases "run_on m x") simp_all

lemma run_chain_Cons: "run_chain (m # ms) x = then_do (run_on m x) (run_chain ms)"
  by (cases "run_on m x") simp_all

lemma summary_qrewrite_free_key:
  "free_key (summary_qrewrite_prompt :: 'a qp_module) = Some ''query_str''"
  by (simp add: summary_qrewrite_prompt_def PromptTemplate_def summary_qrewrite_str_def)

lemma run_on_chain:
  "run_on (chain (m # ms)) x =
     (case free_key m of None \<Rightarrow> Inl (ValueError ''dest_key is needed'') | Some k \<Rightarrow> run_chain (m # ms) x)"
  by (simp add: run_on_def chain_def split: option.splits)

lemma run_on_prompt:
  assumes "summary_qrewrite_str = [Lit before, Field ''query_str'', Lit after]"
  shows "run_on summary_qrewrite_prompt (Val (StrV q)) = Inr (Val (StrV (before @ q @ after)))"
  by (simp add: run_on_def summary_qrewrite_free_key)
     (simp add: summary_qrewrite_prompt_def PromptTemplate_def assms str_arg_def)

lemma run_on_llm: "run_on (llm fw) x = OpenAI fw ''gpt-3.5-turbo'' [''messages'' \<mapsto> x]"
  by (simp add: run_on_def llm_def)

lemma run_on_summary_query_engine:
  "run_on (summary_query_engine fw) x = summary_index_as_query_engine fw [''input'' \<mapsto> x]"
  by (simp add: run_on_def summary_query_engine_def)

lemma run_on_vector_query_engine:
  "run_on (vector_query_engine fw) x = vector_index_as_query_engine fw 2 [''input'' \<mapsto> x]"
  by (simp add: run_on_def vector_query_engine_def)

lemma run_summary_chain:
  assumes "summary_qrewrite_str = [Lit before, Field ''query_str'', Lit after]"
  shows "run_on (summary_chain fw) (Val (StrV q)) =
     then_do (OpenAI fw ''gpt-3.5-turbo'' [''messages'' \<mapsto> Val (StrV (before @ q @ after))])
       (\<lambda>rewritten. summary_index_as_query_engine fw [''input'' \<mapsto> rewritten])"
proof -
  have "run_on (summary_chain fw) (Val (StrV q)) =
      run_chain [summary_qrewrite_prompt, llm fw, summary_query_engine fw] (Val (StrV q))"
    by (simp add: summary_chain_def run_on_chain summary_qrewrite_free_key)
  also have "\<dots> = run_chain [llm fw, summary_query_engine fw] (Val (StrV (before @ q @ after)))"
    by (simp add: run_on_prompt [OF assms])
  also have "\<dots> = then_do (OpenAI fw ''gpt-3.5-turbo'' [''messages'' \<mapsto> Val (StrV (before @ q @ after))])
      (\<lambda>rewritten. summary_index_as_query_engine fw [''input'' \<mapsto> rewritten])"
    unfolding run_chain_Cons [of "llm fw"] run_chain_single run_on_llm
    by (simp add: run_on_summary_query_engine)
  finally show ?thesis .
qed

lemma run_vector_chain:
  "run_on (vector_chain fw) (Val (StrV q)) =
     vector_index_as_query_engine fw 2 [''input'' \<mapsto> Val (StrV q)]"
proof -
  have "free_key (vector_query_engine fw) = Some ''input''"
    by (simp add: vector_query_engine_def)
  then show ?thesis
    unfolding vector_chain_def run_on_chain run_chain_single
    by (simp add: run_on_vector_query_engine)
qed

lemma router_free_key: "free_key (router_c fw) = Some ''query''"
  by (simp add: router_c_def RouterComponent_def)

lemma run_on_router:
  "run_on (router_c fw) (Val (StrV q)) =
     then_do (LLMSingleSelector fw choices q) (\<lambda>output.
     then_do (list_index [vector_chain fw, summary_chain fw] (ind output)) (\<lambda>c.
       run_on c (Val (StrV q))))"
  by (simp add: run_on_def router_free_key)
     (simp add: router_c_def RouterComponent_def str_arg_def run_on_def)

lemma qp_router_run_eq:
  "qp_router_run fw q =
     then_do (LLMSingleSelector fw choices q) (\<lambda>output.
     then_do (list_index [vector_chain fw, summary_chain fw] (ind output)) (\<lambda>c.
       run_on c (Val (StrV q))))"
  unfolding qp_router_run_def run_on_chain run_chain_single
  by (simp add: router_free_key run_on_router)

lemma qp_router_run_vector:
  assumes "LLMSingleSelector fw choices q = Inr output" and "ind output = 0"
  shows "qp_router_run fw q = vector_index_as_query_engine fw 2 [''input'' \<mapsto> Val (StrV q)]"
  using assms by (simp add: qp_router_run_eq list_index_def run_vector_chain)

lemma qp_router_run_summary:
  assumes "LLMSingleSelector fw choices q = Inr output" and "ind output = 1"
    and "summary_qrewrite_str = [Lit before, Field ''query_str'', Lit after]"
  shows "qp_router_run fw q =
     then_do (OpenAI fw ''gpt-3.5-turbo'' [''messages'' \<mapsto> Val (StrV (before @ q @ after))])
       (\<lambda>rewritten. summary_index_as_query_engine fw [''input'' \<mapsto> rewritten])"
  using assms(1,2) by (simp add: qp_router_run_eq list_index_def run_summary_chain [OF assms(3)])

lemma qp_router_run_out_of_range:
  assumes "LLMSingleSelector fw choices q = Inr output" and "2 \<le> ind output"
  shows "qp_router_run fw q = Inl IndexError"
  using assms by (simp add: qp_router_run_eq list_index_def)

lemma summary_qrewrite_parts:
  "\<exists>before after. summary_qrewrite_str = [Lit before, Field ''query_str'', Lit after]"
  by (simp add: summary_qrewrite_str_def)

section \<open>Running the Slack notebook\<close>

lemma globals_set_credentials:
  "environ (globals (set_credentials st)) ''SLACK_BOT_TOKEN'' = Some ''xoxb-''"
  "openai_api_key (globals (set_credentials st)) = Some ''sk-''"
  "calls (set_credentials st) = calls st"
  "displayed (set_credentials st) = displayed st"
  by (simp_all add: set_credentials_def)

lemmas demo_defs = demo_framework_def given_nodes_def asked_def

section \<open>Running a notebook statement by statement\<close>





lemma slack_demo_slack_calls: "slack_demo fw st = slack_calls fw (set_credentials st)"
  by (simp add: slack_demo_def slack_calls_def Let_def)

lemma set_credentials_split: "set_credentials st = set_api_key (set_bot_token st)"
  by (simp add: set_credentials_def set_api_key_def set_bot_token_def)








section \<open>The dictionary \<^verbatim>\<open>select_choice\<close> returns\<close>

text \<open>
  Claim C9. For every query \<open>q\<close> and every result the selector produces,
  \<^verbatim>\<open>select_choice(q)\<close> returns a dictionary with exactly the keys \<^verbatim>\<open>"query"\<close> and
  \<^verbatim>\<open>"index"\<close>; under \<^verbatim>\<open>"query"\<close> is \<open>q\<close> unchanged, under \<^verbatim>\<open>"index"\<close> the decimal
  rendering of \<^verbatim>\<open>output.ind\<close> (the string that \<^verbatim>\<open>int\<close> reads back as that index).
\<close>

theorem select_choice_returns_query_and_index:
  assumes "sel choices q = Inr output"
  shows "\<exists>d. select_choice sel q = Inr d
           \<and> dom d = {''query'', ''index''}
           \<and> d ''query'' = Some (StrV q)
           \<and> d ''index'' = Some (StrV (str_int (ind output)))
           \<and> int_of_str (str_int (ind output)) = ind output"
  using assms by (auto simp: select_choice_def int_of_str_str_int)

text \<open>The selector answers 1: the dictionary holds the query and the string \<^verbatim>\<open>"1"\<close>.\<close>

theorem select_choice_returns_query_and_index_witness:
  "select_choice (\<lambda>chs q. Inr \<lparr>ind = 1, reason = ''summary''\<rparr>) ''What is a summary?''
     = Inr [''query'' \<mapsto> StrV ''What is a summary?'', ''index'' \<mapsto> StrV ''1'']"
  using select_choice_returns_query_and_index
    [of "\<lambda>chs q. Inr \<lparr>ind = 1, reason = ''summary''\<rparr>" "''What is a summary?''"
        "\<lparr>ind = 1, reason = ''summary''\<rparr>"]
  by (simp add: select_choice_def str_int_1)

section \<open>The two conditional links\<close>

text \<open>
  Claim C10. The conditions \<^verbatim>\<open>x["index"] == "0"\<close> and \<^verbatim>\<open>x["index"] == "1"\<close> are never
  both true of a dictionary \<open>x\<close>, so no run executes both \<^verbatim>\<open>vector_retriever\<close> and
  \<^verbatim>\<open>summary_retriever\<close>. They are not exhaustive: when the index is anything other than
  the strings \<^verbatim>\<open>"0"\<close> and \<^verbatim>\<open>"1"\<close> both are false, neither retriever runs, and the
  summarizer is run on the query alone, with nothing under \<^verbatim>\<open>nodes\<close>.
\<close>

theorem conditional_links_exclusive_not_exhaustive:
  "\<not> (condition_fn_vector x = Inr True \<and> condition_fn_summary x = Inr True)
   \<and> (\<forall>st. qp_run fw q = Inr st \<longrightarrow>
         \<not> (''vector_retriever'' \<in> set (executed st) \<and> ''summary_retriever'' \<in> set (executed st)))
   \<and> (x ''index'' = Some v \<and> v \<noteq> StrV ''0'' \<and> v \<noteq> StrV ''1'' \<longrightarrow>
         condition_fn_vector x = Inr False \<and> condition_fn_summary x = Inr False)
   \<and> (LLMSingleSelector fw choices q = Inr output
        \<and> str_int (ind output) \<noteq> ''0'' \<and> str_int (ind output) \<noteq> ''1'' \<longrightarrow>
         response_of (qp_run fw q) = TreeSummarize fw (llm fw) [''query_str'' \<mapsto> Val (StrV q)]
         \<and> (\<forall>st. qp_run fw q = Inr st \<longrightarrow>
               executed st = [''input'', ''selector'', ''summarizer'']
               \<and> all_module_inputs st ''summarizer'' ''nodes'' = None))"
proof (intro conjI allI impI)
  show "\<not> (condition_fn_vector x = Inr True \<and> condition_fn_summary x = Inr True)"
    by (auto simp: condition_fn_vector_def condition_fn_summary_def getitem_def
        split: option.splits)
next
  fix st
  assume run: "qp_run fw q = Inr st"
  show "\<not> (''vector_retriever'' \<in> set (executed st) \<and> ''summary_retriever'' \<in> set (executed st))"
  proof (cases "LLMSingleSelector fw choices q")
    case (Inl e)
    then show ?thesis
      using run by (simp add: qp_run_selector_raises)
  next
    case (Inr out)
    then show ?thesis
      using executed_qp_run [OF Inr run] by simp
  qed
next
  assume "x ''index'' = Some v \<and> v \<noteq> StrV ''0'' \<and> v \<noteq> StrV ''1''"
  then show "condition_fn_vector x = Inr False" and "condition_fn_summary x = Inr False"
    by (simp_all add: condition_fn_vector_def condition_fn_summary_def getitem_def)
next
  assume a: "LLMSingleSelector fw choices q = Inr output
        \<and> str_int (ind output) \<noteq> ''0'' \<and> str_int (ind output) \<noteq> ''1''"
  then have sel: "LLMSingleSelector fw choices q = Inr output"
    and n0: "ind output \<noteq> 0" and n1: "ind output \<noteq> 1"
    by (auto simp: str_int_0 str_int_1)
  show "response_of (qp_run fw q) = TreeSummarize fw (llm fw) [''query_str'' \<mapsto> Val (StrV q)]"
    using response_of_qp_run [OF sel] n0 n1 by simp
  fix st
  assume run: "qp_run fw q = Inr st"
  then show "executed st = [''input'', ''selector'', ''summarizer'']"
    using executed_qp_run [OF sel run] n0 n1 by simp
  show "all_module_inputs st ''summarizer'' ''nodes'' = None"
    using run by (auto simp: qp_run_neither [OF sel n0 n1] then_do_eq_Inr)
qed

text \<open>
  The index \<^verbatim>\<open>"2"\<close>: both conditions are false, and a summarizer that needs its nodes
  is run without them and raises.
\<close>

theorem conditional_links_exclusive_not_exhaustive_witness:
  "condition_fn_vector [''query'' \<mapsto> StrV ''What?'', ''index'' \<mapsto> StrV ''2''] = Inr False
   \<and> condition_fn_summary [''query'' \<mapsto> StrV ''What?'', ''index'' \<mapsto> StrV ''2''] = Inr False
   \<and> response_of (qp_run (demo_framework 2 ''rewritten'') ''What?'')
       = Inl (ValueError ''nodes is required'')"
  using conditional_links_exclusive_not_exhaustive
    [of "[''query'' \<mapsto> StrV ''What?'', ''index'' \<mapsto> StrV ''2'']" "demo_framework 2 ''rewritten''"
        "''What?''" "StrV ''2''" "\<lparr>ind = 2, reason = ''chosen''\<rparr>"]
  by (simp add: demo_defs str_int_is_0 str_int_is_1)

section \<open>Routing a query\<close>

text \<open>
  Claim C1, as amended. The claim has every query routed to exactly one of the two
  branches. The links fire on the strings \<^verbatim>\<open>"0"\<close> and \<^verbatim>\<open>"1"\<close> only, and nothing in
  the notebook bounds the index the selector answers with. What holds is the claim for the
  queries on which the selector answers 0 or 1: the graph with conditional links runs
  \<^verbatim>\<open>input\<close>, \<^verbatim>\<open>selector\<close>, then exactly one retriever, the vector retriever (built with
  \<^verbatim>\<open>similarity_top_k=2\<close>) for 0 and the summary retriever for 1, then the summarizer on
  the query and the nodes retrieved, and the cell prints the \<^verbatim>\<open>str\<close> of that response
  (or the run ends with what the retriever or the summarizer raised). The router of the
  first half of the notebook runs the vector query engine (top 2) on the query for index 0
  and, for index 1, the summary chain: the rewrite prompt filled with the query, the
  language model on it, the summary query engine on what the model wrote.
\<close>

theorem routing_by_selector_index:
  assumes "LLMSingleSelector fw choices q = Inr output"
    and "ind output = 0 \<or> ind output = 1"
  shows "print_response str_of (response_of (qp_run fw q)) =
      print_response str_of
       (then_do
          ((if ind output = 0 then vector_index_as_retriever fw 2
            else summary_index_as_retriever fw) [''input'' \<mapsto> Val (StrV q)])
          (\<lambda>nodes.
            TreeSummarize fw (llm fw) [''query_str'' \<mapsto> Val (StrV q), ''nodes'' \<mapsto> nodes]))
    \<and> (\<forall>ran. modules_run (qp_run fw q) = Inr ran \<longrightarrow>
          ran = [''input'', ''selector'',
                 if ind output = 0 then ''vector_retriever'' else ''summary_retriever'',
                 ''summarizer''])
    \<and> (ind output = 0 \<longrightarrow>
          qp_router_run fw q = vector_index_as_query_engine fw 2 [''input'' \<mapsto> Val (StrV q)])
    \<and> (ind output = 1 \<longrightarrow>
          (\<exists>before after. summary_qrewrite_str = [Lit before, Field ''query_str'', Lit after] \<and>
             qp_router_run fw q =
               then_do (OpenAI fw ''gpt-3.5-turbo'' [''messages'' \<mapsto> Val (StrV (before @ q @ after))])
                 (\<lambda>rewritten. summary_index_as_query_engine fw [''input'' \<mapsto> rewritten])))"
proof (intro conjI allI impI)
  have sel: "LLMSingleSelector fw choices q = Inr output"
    by (rule assms(1))
  show "print_response str_of (response_of (qp_run fw q)) =
      print_response str_of
       (then_do
          ((if ind output = 0 then vector_index_as_retriever fw 2
            else summary_index_as_retriever fw) [''input'' \<mapsto> Val (StrV q)])
          (\<lambda>nodes.
            TreeSummarize fw (llm fw) [''query_str'' \<mapsto> Val (StrV q), ''nodes'' \<mapsto> nodes]))"
    using assms(2) by (auto simp: response_of_qp_run [OF sel])
next
  fix ran
  assume "modules_run (qp_run fw q) = Inr ran"
  then obtain st where "qp_run fw q = Inr st" and "ran = executed st"
    by (auto simp: modules_run_def then_do_eq_Inr)
  then show "ran = [''input'', ''selector'',
                 if ind output = 0 then ''vector_retriever'' else ''summary_retriever'',
                 ''summarizer'']"
    using executed_qp_run [OF assms(1)] assms(2) by auto
next
  assume "ind output = 0"
  then show "qp_router_run fw q = vector_index_as_query_engine fw 2 [''input'' \<mapsto> Val (StrV q)]"
    using assms(1) by (rule qp_router_run_vector [rotated])
next
  assume one: "ind output = 1"
  obtain before after
    where parts: "summary_qrewrite_str = [Lit before, Field ''query_str'', Lit after]"
    using summary_qrewrite_parts by blast
  show "\<exists>before after. summary_qrewrite_str = [Lit before, Field ''query_str'', Lit after] \<and>
             qp_router_run fw q =
               then_do (OpenAI fw ''gpt-3.5-turbo'' [''messages'' \<mapsto> Val (StrV (before @ q @ after))])
                 (\<lambda>rewritten. summary_index_as_query_engine fw [''input'' \<mapsto> rewritten])"
    using parts qp_router_run_summary [OF assms(1) one parts] by blast
qed

text \<open>The selector answers 1: the summary branch runs, in the graph and in the router.\<close>

theorem routing_by_selector_index_witness:
  "print_response (\<lambda>r. case r of Obj s \<Rightarrow> s | Val v \<Rightarrow> ''value'' | Choice d \<Rightarrow> ''dict'')
       (response_of (qp_run (demo_framework 1 ''rewritten'') ''What is a summary of this document?''))
     = Inr ''summary of summary nodes''
   \<and> qp_router_run (demo_framework 1 ''rewritten'') ''What is a summary of this document?''
     = Inr (Obj ''summary engine: rewritten'')"
  using routing_by_selector_index
    [of "demo_framework 1 ''rewritten''" "''What is a summary of this document?''"
        "\<lparr>ind = 1, reason = ''chosen''\<rparr>"
        "\<lambda>r. case r of Obj s \<Rightarrow> s | Val v \<Rightarrow> ''value'' | Choice d \<Rightarrow> ''dict''"]
  by (auto simp: demo_defs print_response_def)

text \<open>
  Claim C1 as stated fails when the selector answers 2: no branch is executed and there is
  no response to print. The run of the graph ends in the ValueError of a summarizer that
  was given no nodes, the run of the router in IndexError.
\<close>

theorem qp_run_index_two_runs_no_branch:
  "modules_run (qp_run (demo_framework 2 ''rewritten'') ''What is a summary of this document?'')
     = Inl (ValueError ''nodes is required'')
   \<and> response_of (qp_run (demo_framework 2 ''rewritten'') ''What is a summary of this document?'')
     = Inl (ValueError ''nodes is required'')
   \<and> qp_router_run (demo_framework 2 ''rewritten'') ''What is a summary of this document?''
     = Inl IndexError"
proof -
  have sel: "LLMSingleSelector (demo_framework 2 ''rewritten'') choices
      ''What is a summary of this document?'' = Inr \<lparr>ind = 2, reason = ''chosen''\<rparr>"
    by (simp add: demo_framework_def)
  have run: "qp_run (demo_framework 2 ''rewritten'') ''What is a summary of this document?'' =
      Inl (ValueError ''nodes is required'')"
    by (simp add: qp_run_neither [OF sel]) (simp add: demo_defs)
  show ?thesis
    by (simp add: run modules_run_def response_of_def qp_router_run_out_of_range [OF sel])
qed

section \<open>Branching written in the notebook\<close>




section \<open>The shape of the selector's dictionary\<close>




section \<open>What the language model is used for\<close>




section \<open>The Slack notebook, call by call\<close>

text \<open>
  Claim C2. The Slack notebook sets the credentials, calls the reader with the bot token
  for the list of channels, builds the summary index from exactly the documents the reader
  returned, makes the query engine from that index, and queries it, in this order; the
  response is displayed in bold.
\<close>

theorem slack_demo_calls_in_order:
  assumes "g = globals (set_credentials st)"
    and "load_data fw g (Some ''xoxb-'') [''<channel_id>''] = Inr documents"
    and "from_documents fw g documents = Inr index"
    and "as_query_engine fw g index = Inr query_engine"
    and "query fw g query_engine ''<query_text>'' = Inr response"
  shows "slack_demo fw st =
      (Inr response,
       st\<lparr>globals := g,
          calls := calls st @
            [Call_load_data (environ g ''SLACK_BOT_TOKEN'') [''<channel_id>''],
             Call_from_documents documents,
             Call_as_query_engine index,
             Call_query query_engine ''<query_text>''],
          displayed := displayed st @ [''<b>'' @ str_response fw response @ ''</b>'']\<rparr>)
    \<and> environ g ''SLACK_BOT_TOKEN'' = Some ''xoxb-'' \<and> openai_api_key g = Some ''sk-''"
  using assms
  by (simp add: slack_demo_def Let_def external_def globals_set_credentials)

text \<open>A workspace with one message in the channel: four calls, one document, one star.\<close>

theorem slack_demo_calls_in_order_witness:
  "slack_demo demo_slack fresh_notebook =
     (Inr 1,
      \<lparr>globals = \<lparr>environ = [''SLACK_BOT_TOKEN'' \<mapsto> ''xoxb-''], openai_api_key = Some ''sk-''\<rparr>,
       calls =
         [Call_load_data (Some ''xoxb-'') [''<channel_id>''],
          Call_from_documents [(''<channel_id>'', [''message of <channel_id> read with xoxb-''])],
          Call_as_query_engine [(''<channel_id>'', [''message of <channel_id> read with xoxb-''])],
          Call_query [(''<channel_id>'', [''message of <channel_id> read with xoxb-''])] ''<query_text>''],
       displayed = [''<b>*</b>'']\<rparr>)"
  using slack_demo_calls_in_order
    [of "globals (set_credentials fresh_notebook)" fresh_notebook demo_slack
        "[(''<channel_id>'', [''message of <channel_id> read with xoxb-''])]"
        "[(''<channel_id>'', [''message of <channel_id> read with xoxb-''])]"
        "[(''<channel_id>'', [''message of <channel_id> read with xoxb-''])]"
        1]
  by (simp add: demo_slack_def fresh_notebook_def set_credentials_def SlackReader_def
      demo_history_def)

section \<open>Failures of external calls\<close>




section \<open>What the reader is given and gives back\<close>

text \<open>
  Claim C6. The reader is called with two inputs, the bot token read from the environment
  (the one the notebook has just put there) and the list of channel identifiers, and what
  it returns, the history of those channels as documents, is what the index is built from.
\<close>

theorem slack_reader_inputs_and_documents:
  assumes "load_data fw = SlackReader history to_document"
    and "history (Some ''xoxb-'') ''<channel_id>'' = Inr messages"
  shows "environ (globals (set_credentials st)) ''SLACK_BOT_TOKEN'' = Some ''xoxb-''
    \<and> (\<exists>rest. calls (snd (slack_demo fw st)) = calls st @
          Call_load_data (environ (globals (set_credentials st)) ''SLACK_BOT_TOKEN'') [''<channel_id>'']
          # Call_from_documents [to_document ''<channel_id>'' messages] # rest)
    \<and> load_data fw (globals (set_credentials st)) (Some ''xoxb-'') [''<channel_id>'']
         = Inr [to_document ''<channel_id>'' messages]"
  using assms
  by (auto simp: slack_demo_def Let_def external_def globals_set_credentials SlackReader_def
      split: sum.splits)

text \<open>The calls of the notebook on a workspace with one message in the channel.\<close>

theorem slack_reader_inputs_and_documents_witness:
  "calls (snd (slack_demo demo_slack fresh_notebook)) =
     [Call_load_data (Some ''xoxb-'') [''<channel_id>''],
      Call_from_documents [(''<channel_id>'', [''message of <channel_id> read with xoxb-''])],
      Call_as_query_engine [(''<channel_id>'', [''message of <channel_id> read with xoxb-''])],
      Call_query [(''<channel_id>'', [''message of <channel_id> read with xoxb-''])] ''<query_text>'']"
  using slack_reader_inputs_and_documents
    [of demo_slack demo_history Pair "[''message of <channel_id> read with xoxb-'']" fresh_notebook]
  by (simp add: demo_slack_def fresh_notebook_def SlackReader_def demo_history_def
      slack_demo_def Let_def external_def set_credentials_def)

end
